theory Spec2Isabelle
  imports Main "HOL-Library.AList"
begin

section \<open>JSON values as the handlers of server.js see them\<close>

text \<open>
  The store is one JSON document (database.json) and every request body is JSON parsed by
  \<^verbatim>\<open>express.json()\<close>. A JSON object is an association list from property names to
  values, in the order of its properties; the property names of an object are distinct.
  JavaScript's \<^verbatim>\<open>undefined\<close> (a missing property) is \<open>None\<close> of \<open>json option\<close>.
  A number is a safe integer (\<^verbatim>\<open>Number.isSafeInteger\<close>): JavaScript holds it exactly and
  prints it in plain decimal, and no handler computes with a number. The order of the
  properties shows only in
  the text of the file and of an answer; that JavaScript lists integer-like names first
  is not modelled, and the properties below read an object through \<open>map_of\<close>.
\<close>

typedef safe_integer = "{i :: int. - (2 ^ 53) < i \<and> i < 2 ^ 53}"
  morphisms int_of safe_integer_of
  by (rule exI [of _ 0]) simp

datatype json =
    JNull
  | JBool bool
  | JNum safe_integer
  | JStr string
  | JArr "json list"
  | JObj "(string \<times> json) list"

type_synonym obj = "(string \<times> json) list"

text \<open>
  The exceptions: a TypeError of the language, a failed read of the file (it is
  missing, or its text is not JSON), a failed write.
\<close>

datatype error = TypeError | ReadFailed | WriteFailed

subsection \<open>Number to string\<close>

text \<open>
  \<^verbatim>\<open>Date.now().toString()\<close> and the index keys of arrays: decimal digits. A clock
  reading (milliseconds since 1970, at most 8640000000000000) and an array length
  (below 4294967296) are far below the size from which JavaScript prints a number with
  an exponent.
\<close>

definition digit_char :: "nat \<Rightarrow> char" where
  "digit_char d = char_of (of_char CHR ''0'' + d)"

fun toString_nat :: "nat \<Rightarrow> string" where
  "toString_nat n =
     (if 10 \<le> n then toString_nat (n div 10) else []) @ [digit_char (n mod 10)]"

declare toString_nat.simps [simp del]

text \<open>The text of a safe integer in a template literal.\<close>

definition toString_int :: "int \<Rightarrow> string" where
  "toString_int i = (if 0 \<le> i then toString_nat (nat i) else CHR ''-'' # toString_nat (nat (- i)))"

subsection \<open>Property access, strict equality, truthiness, spread\<close>

text \<open>
  \<^verbatim>\<open>v.k\<close> and \<^verbatim>\<open>const { k } = v\<close> for the property names the handlers read (id,
  username, password, name, phone, email, company, message): none of them is a built-in
  property of an array, a string, a number or a boolean, nor of the prototype of
  objects, so only an object that has the property itself yields a value. Reading a
  property of \<^verbatim>\<open>undefined\<close> or \<^verbatim>\<open>null\<close> throws a TypeError.
\<close>

fun fields_of :: "json option \<Rightarrow> error + (string \<Rightarrow> json option)" where
  "fields_of None = Inl TypeError"
| "fields_of (Some JNull) = Inl TypeError"
| "fields_of (Some (JObj ps)) = Inr (map_of ps)"
| "fields_of (Some v) = Inr (\<lambda>k. None)"

definition get_prop :: "json option \<Rightarrow> string \<Rightarrow> error + json option" where
  "get_prop v k = (case fields_of v of Inl e \<Rightarrow> Inl e | Inr f \<Rightarrow> Inr (f k))"

text \<open>
  \<^verbatim>\<open>a === b\<close>: primitives are compared by type and value; an array or object parsed from
  JSON is a fresh reference and is never identical to another value.
\<close>

fun strict_eq :: "json option \<Rightarrow> json option \<Rightarrow> bool" where
  "strict_eq None None = True"
| "strict_eq (Some JNull) (Some JNull) = True"
| "strict_eq (Some (JBool a)) (Some (JBool b)) = (a = b)"
| "strict_eq (Some (JNum a)) (Some (JNum b)) = (a = b)"
| "strict_eq (Some (JStr a)) (Some (JStr b)) = (a = b)"
| "strict_eq x y = False"

fun truthy :: "json option \<Rightarrow> bool" where
  "truthy None = False"
| "truthy (Some JNull) = False"
| "truthy (Some (JBool b)) = b"
| "truthy (Some (JNum n)) = (int_of n \<noteq> 0)"
| "truthy (Some (JStr s)) = (s \<noteq> [])"
| "truthy (Some (JArr xs)) = True"
| "truthy (Some (JObj ps)) = True"

text \<open>\<^verbatim>\<open>v || d\<close> with a default \<open>d\<close> that is a JSON value.\<close>

definition or_default :: "json option \<Rightarrow> json \<Rightarrow> json" where
  "or_default v d = (case v of None \<Rightarrow> d | Some x \<Rightarrow> if truthy v then x else d)"

definition index_keys :: "nat \<Rightarrow> string list" where
  "index_keys n = map toString_nat [0..<n]"

text \<open>
  The own enumerable properties that \<^verbatim>\<open>...v\<close> copies inside an object literal: those of
  an object, the indices of an array or of a string, nothing for any other value.
\<close>

fun props :: "json option \<Rightarrow> obj" where
  "props (Some (JObj ps)) = ps"
| "props (Some (JArr xs)) = zip (index_keys (length xs)) xs"
| "props (Some (JStr s)) = zip (index_keys (length s)) (map (\<lambda>c. JStr [c]) s)"
| "props v = []"

text \<open>
  Copying properties onto an object one by one, as the spread does: a name the target
  has keeps its place and takes the new value, a new name goes to the end.
\<close>

definition assign :: "obj \<Rightarrow> obj \<Rightarrow> obj" where
  "assign target src = fold (\<lambda>(k, v). AList.update k v) src target"

text \<open>\<^verbatim>\<open>{ ...a, ...b }\<close>\<close>

definition spread2 :: "json option \<Rightarrow> json option \<Rightarrow> obj" where
  "spread2 a b = assign (props a) (props b)"

text \<open>
  An object literal whose property values may be \<^verbatim>\<open>undefined\<close>: \<^verbatim>\<open>JSON.stringify\<close>
  leaves such a property out, both in the file and in a response.
\<close>

definition defined_props :: "(string \<times> json option) list \<Rightarrow> obj" where
  "defined_props kvs = List.map_filter (\<lambda>(k, v). map_option (Pair k) v) kvs"

subsection \<open>Conversion to string inside a template literal\<close>

text \<open>
  \<^verbatim>\<open>`${v}`\<close>: an object that has an own property \<^verbatim>\<open>toString\<close> (never callable in
  parsed JSON) cannot be converted and throws a TypeError; any other object is
  \<^verbatim>\<open>[object Object]\<close>; an array joins its elements with commas, \<^verbatim>\<open>null\<close> elements
  being empty.
\<close>

fun to_string :: "json \<Rightarrow> error + string"
  and join :: "json list \<Rightarrow> error + string" where
  "to_string JNull = Inr ''null''"
| "to_string (JBool b) = Inr (if b then ''true'' else ''false'')"
| "to_string (JNum n) = Inr (toString_int (int_of n))"
| "to_string (JStr s) = Inr s"
| "to_string (JArr xs) = join xs"
| "to_string (JObj ps) =
     (if ''toString'' \<in> set (map fst ps) then Inl TypeError else Inr ''[object Object]'')"
| "join [] = Inr ''''"
| "join (x # xs) =
     (case (if x = JNull then Inr '''' else to_string x) of
        Inl e \<Rightarrow> Inl e
      | Inr s \<Rightarrow>
          (case join xs of
             Inl e \<Rightarrow> Inl e
           | Inr t \<Rightarrow> Inr (if xs = [] then s else s @ '','' @ t)))"

definition template :: "json option \<Rightarrow> error + string" where
  "template v = (case v of None \<Rightarrow> Inr ''undefined'' | Some x \<Rightarrow> to_string x)"

section \<open>The file and the effects of a request\<close>

record mail =
  subject :: string
  html_texts :: "string list"

datatype event =
    ReadDB
  | WriteDB
  | LogStored
  | SendMail mail
  | LogMailSent
  | LogMailFailed
  | LogSubmissionFailed error

text \<open>
  \<open>disk\<close> is the parsed content of database.json, a JSON object, or \<open>None\<close> when the
  file is missing or is not JSON; \<open>writable\<close> says whether \<^verbatim>\<open>fs.writeFileSync\<close>
  succeeds (a failed write is taken to leave the file as it was); \<open>trace\<close> lists the
  effects performed so far, oldest first. What is written is read back unchanged:
  \<^verbatim>\<open>JSON.parse\<close> undoes \<^verbatim>\<open>JSON.stringify\<close> on these values.
\<close>

record world =
  disk :: "obj option"
  writable :: bool
  trace :: "event list"

definition emit :: "event \<Rightarrow> world \<Rightarrow> world" where
  "emit e w = w\<lparr>trace := trace w @ [e]\<rparr>"

text \<open>\<^verbatim>\<open>const readDB = () => JSON.parse(fs.readFileSync(dbPath, "utf8"))\<close>\<close>

definition readDB :: "world \<Rightarrow> (error + obj) \<times> world" where
  "readDB w =
     (case disk w of
        None \<Rightarrow> (Inl ReadFailed, emit ReadDB w)
      | Some db \<Rightarrow> (Inr db, emit ReadDB w))"

text \<open>\<^verbatim>\<open>const writeDB = (data) => fs.writeFileSync(dbPath, JSON.stringify(data, null, 2))\<close>\<close>

definition writeDB :: "obj \<Rightarrow> world \<Rightarrow> (error + unit) \<times> world" where
  "writeDB data w =
     (if writable w then (Inr (), emit WriteDB (w\<lparr>disk := Some data\<rparr>))
      else (Inl WriteFailed, emit WriteDB w))"

text \<open>
  What a handler leaves behind: a JSON reply with its status, or an exception that
  leaves the handler (Express then answers with its own error page).
\<close>

datatype outcome = Reply nat "json option" | Uncaught error

section \<open>Login\<close>

text \<open>\<^verbatim>\<open>app.post("/api/login", ...)\<close>\<close>

definition login :: "json \<Rightarrow> world \<Rightarrow> outcome \<times> world" where
  "login body w =
     (case fields_of (Some body) of
        Inl e \<Rightarrow> (Uncaught e, w)
      | Inr f \<Rightarrow>
          let username = f ''username''; password = f ''password'' in
          (case readDB w of
             (Inl e, w1) \<Rightarrow> (Uncaught e, w1)
           | (Inr db, w1) \<Rightarrow>
               (case fields_of (map_of db ''admin'') of
                  Inl e \<Rightarrow> (Uncaught e, w1)
                | Inr admin \<Rightarrow>
                    if strict_eq (admin ''username'') username
                       \<and> strict_eq (admin ''password'') password
                    then (Reply 200 (Some (JObj [(''success'', JBool True)])), w1)
                    else (Reply 401 (Some (JObj [(''success'', JBool False),
                            (''message'', JStr ''Invalid credentials'')])), w1))))"

section \<open>The generic CRUD routes of setupCRUD\<close>

text \<open>\<^verbatim>\<open>item.id === req.params.id\<close>; the path parameter is always a string.\<close>

definition id_is :: "string \<Rightarrow> json \<Rightarrow> error + bool" where
  "id_is pid item =
     (case get_prop (Some item) ''id'' of
        Inl e \<Rightarrow> Inl e
      | Inr v \<Rightarrow> Inr (strict_eq v (Some (JStr pid))))"

text \<open>\<^verbatim>\<open>items.findIndex(item => item.id === pid)\<close>, with \<open>None\<close> for -1.\<close>

fun findIndex :: "json list \<Rightarrow> string \<Rightarrow> error + nat option" where
  "findIndex [] pid = Inr None"
| "findIndex (item # items) pid =
     (case id_is pid item of
        Inl e \<Rightarrow> Inl e
      | Inr b \<Rightarrow>
          if b then Inr (Some 0)
          else (case findIndex items pid of
                  Inl e \<Rightarrow> Inl e
                | Inr r \<Rightarrow> Inr (map_option Suc r)))"

text \<open>\<^verbatim>\<open>items.filter(item => item.id !== pid)\<close>\<close>

fun filter_not_id :: "json list \<Rightarrow> string \<Rightarrow> error + json list" where
  "filter_not_id [] pid = Inr []"
| "filter_not_id (item # items) pid =
     (case id_is pid item of
        Inl e \<Rightarrow> Inl e
      | Inr b \<Rightarrow>
          (case filter_not_id items pid of
             Inl e \<Rightarrow> Inl e
           | Inr kept \<Rightarrow> Inr (if b then kept else item # kept)))"

text \<open>\<^verbatim>\<open>app.get(`/api/${resource}`, ...)\<close>\<close>

definition crud_get :: "string \<Rightarrow> world \<Rightarrow> outcome \<times> world" where
  "crud_get resource w =
     (case readDB w of
        (Inl e, w1) \<Rightarrow> (Uncaught e, w1)
      | (Inr db, w1) \<Rightarrow> (Reply 200 (map_of db resource), w1))"

text \<open>
  \<^verbatim>\<open>new Error().toISOString()\<close> of line 77: an Error object has no method
  \<^verbatim>\<open>toISOString\<close>, so the call throws a TypeError.
\<close>

definition new_Error_toISOString :: "error + string" where
  "new_Error_toISOString = Inl TypeError"

text \<open>
  The object literal of line 77,
  \<^verbatim>\<open>{ id: Date.now().toString(), ...req.body, created_at: ... }\<close>, once its three parts
  have their values. It is evaluated left to right: the id, the spread of the body,
  then the timestamp; \<open>now\<close> is the reading of \<^verbatim>\<open>Date.now()\<close>.
\<close>

definition new_item :: "nat \<Rightarrow> json \<Rightarrow> string \<Rightarrow> json" where
  "new_item now body created_at =
     JObj (AList.update ''created_at'' (JStr created_at)
            (assign [(''id'', JStr (toString_nat now))] (props (Some body))))"

text \<open>\<^verbatim>\<open>app.post(`/api/${resource}`, ...)\<close>\<close>

definition crud_post :: "string \<Rightarrow> nat \<Rightarrow> json \<Rightarrow> world \<Rightarrow> outcome \<times> world" where
  "crud_post resource now body w =
     (case readDB w of
        (Inl e, w1) \<Rightarrow> (Uncaught e, w1)
      | (Inr db, w1) \<Rightarrow>
          (case new_Error_toISOString of
             Inl e \<Rightarrow> (Uncaught e, w1)
           | Inr created_at \<Rightarrow>
               let newItem = new_item now body created_at;
                   db' = (case map_of db resource of
                            Some (JArr items) \<Rightarrow> AList.update resource (JArr (items @ [newItem])) db
                          | _ \<Rightarrow> AList.update resource newItem db)
               in (case writeDB db' w1 of
                     (Inl e, w2) \<Rightarrow> (Uncaught e, w2)
                   | (Inr u, w2) \<Rightarrow> (Reply 200 (Some newItem), w2))))"

text \<open>\<^verbatim>\<open>app.put(`/api/${resource}/:id`, ...)\<close>\<close>

definition crud_put :: "string \<Rightarrow> string \<Rightarrow> json \<Rightarrow> world \<Rightarrow> outcome \<times> world" where
  "crud_put resource pid body w =
     (case readDB w of
        (Inl e, w1) \<Rightarrow> (Uncaught e, w1)
      | (Inr db, w1) \<Rightarrow>
          (case map_of db resource of
             Some (JArr items) \<Rightarrow>
               (case findIndex items pid of
                  Inl e \<Rightarrow> (Uncaught e, w1)
                | Inr None \<Rightarrow>
                    (Reply 404 (Some (JObj [(''error'', JStr ''Not found'')])), w1)
                | Inr (Some index) \<Rightarrow>
                    let item = JObj (spread2 (Some (items ! index)) (Some body));
                        db' = AList.update resource (JArr (items[index := item])) db
                    in (case writeDB db' w1 of
                          (Inl e, w2) \<Rightarrow> (Uncaught e, w2)
                        | (Inr u, w2) \<Rightarrow> (Reply 200 (Some item), w2)))
           | _ \<Rightarrow> (Uncaught TypeError, w1)))"

text \<open>\<^verbatim>\<open>app.delete(`/api/${resource}/:id`, ...)\<close>\<close>

definition crud_delete :: "string \<Rightarrow> string \<Rightarrow> world \<Rightarrow> outcome \<times> world" where
  "crud_delete resource pid w =
     (case readDB w of
        (Inl e, w1) \<Rightarrow> (Uncaught e, w1)
      | (Inr db, w1) \<Rightarrow>
          (case map_of db resource of
             Some (JArr items) \<Rightarrow>
               (case filter_not_id items pid of
                  Inl e \<Rightarrow> (Uncaught e, w1)
                | Inr kept \<Rightarrow>
                    (case writeDB (AList.update resource (JArr kept) db) w1 of
                       (Inl e, w2) \<Rightarrow> (Uncaught e, w2)
                     | (Inr u, w2) \<Rightarrow>
                         (Reply 200 (Some (JObj [(''success'', JBool True)])), w2)))
           | _ \<Rightarrow> (Uncaught TypeError, w1)))"

section \<open>The hero singleton\<close>

text \<open>\<^verbatim>\<open>app.get("/api/hero", ...)\<close>\<close>

definition hero_get :: "world \<Rightarrow> outcome \<times> world" where
  "hero_get w =
     (case readDB w of
        (Inl e, w1) \<Rightarrow> (Uncaught e, w1)
      | (Inr db, w1) \<Rightarrow> (Reply 200 (map_of db ''hero''), w1))"

text \<open>\<^verbatim>\<open>app.put("/api/hero", ...)\<close>\<close>

definition hero_put :: "json \<Rightarrow> world \<Rightarrow> outcome \<times> world" where
  "hero_put body w =
     (case readDB w of
        (Inl e, w1) \<Rightarrow> (Uncaught e, w1)
      | (Inr db, w1) \<Rightarrow>
          let hero = JObj (spread2 (map_of db ''hero'') (Some body));
              db' = AList.update ''hero'' hero db
          in (case writeDB db' w1 of
                (Inl e, w2) \<Rightarrow> (Uncaught e, w2)
              | (Inr u, w2) \<Rightarrow> (Reply 200 (Some hero), w2)))"

section \<open>Contact intake\<close>

text \<open>\<^verbatim>\<open>db.messages.push(newMessage)\<close>: only an array has \<^verbatim>\<open>push\<close>.\<close>

definition push :: "json option \<Rightarrow> json \<Rightarrow> error + json" where
  "push target x =
     (case target of
        Some (JArr xs) \<Rightarrow> Inr (JArr (xs @ [x]))
      | _ \<Rightarrow> Inl TypeError)"

text \<open>
  The template literals of \<^verbatim>\<open>mailOptions\<close>: the subject, then the texts inserted in
  the markup of the message, in the order of the source. The fixed markup around them
  and the sender and recipient, which come from the configuration, are left out. Every
  conversion that fails throws the same TypeError.
\<close>

definition render_mail ::
  "json option \<Rightarrow> json option \<Rightarrow> json option \<Rightarrow> json option \<Rightarrow> json option \<Rightarrow> error + mail" where
  "render_mail name phone email company message =
     (case template name of Inl e \<Rightarrow> Inl e | Inr name_text \<Rightarrow>
     (case template (Some (or_default company (JStr ''N/A''))) of Inl e \<Rightarrow> Inl e | Inr company_text \<Rightarrow>
     (case template (Some (or_default phone (JStr ''N/A''))) of Inl e \<Rightarrow> Inl e | Inr phone_text \<Rightarrow>
     (case template email of Inl e \<Rightarrow> Inl e | Inr email_text \<Rightarrow>
     (case template message of Inl e \<Rightarrow> Inl e | Inr message_text \<Rightarrow>
        Inr \<lparr>subject = ''New Lead: '' @ name_text @ '' from '' @ company_text,
             html_texts = [name_text, phone_text, email_text, company_text, message_text]\<rparr>)))))"

text \<open>
  The object literal \<^verbatim>\<open>newMessage\<close> of lines 133 to 141. \<open>now\<close> is the reading of
  \<^verbatim>\<open>Date.now()\<close>, \<open>stamp\<close> the text of \<^verbatim>\<open>new Date().toISOString()\<close>, a second
  reading of the clock.
\<close>

definition new_message ::
  "nat \<Rightarrow> string \<Rightarrow> json option \<Rightarrow> json option \<Rightarrow> json option \<Rightarrow> json option \<Rightarrow> json option \<Rightarrow> json" where
  "new_message now stamp name phone email company message =
     JObj (defined_props
       [(''id'', Some (JStr (toString_nat now))),
        (''name'', name),
        (''phone'', Some (or_default phone (JStr ''N/A''))),
        (''email'', email),
        (''company'', Some (or_default company (JStr ''N/A''))),
        (''message'', message),
        (''created_at'', Some (JStr stamp))])"

text \<open>
  The body of the \<^verbatim>\<open>try\<close> block of \<^verbatim>\<open>app.post("/api/contact", ...)\<close>. \<open>mail_ok\<close> says
  whether the mail transport reports success to the callback of \<^verbatim>\<open>sendMail\<close>; the
  callback only logs.
\<close>

definition contact_try :: "nat \<Rightarrow> string \<Rightarrow> bool \<Rightarrow> json \<Rightarrow> world \<Rightarrow> (error + outcome) \<times> world" where
  "contact_try now stamp mail_ok body w =
     (case fields_of (Some body) of
        Inl e \<Rightarrow> (Inl e, w)
      | Inr f \<Rightarrow>
          let name = f ''name''; phone = f ''phone''; email = f ''email'';
              company = f ''company''; message = f ''message''
          in (case readDB w of
                (Inl e, w1) \<Rightarrow> (Inl e, w1)
              | (Inr db, w1) \<Rightarrow>
                  let newMessage = new_message now stamp name phone email company message
                  in (case push (map_of db ''messages'') newMessage of
                        Inl e \<Rightarrow> (Inl e, w1)
                      | Inr messages \<Rightarrow>
                          (case writeDB (AList.update ''messages'' messages db) w1 of
                             (Inl e, w2) \<Rightarrow> (Inl e, w2)
                           | (Inr u, w2) \<Rightarrow>
                               let w3 = emit LogStored w2 in
                               (case render_mail name phone email company message of
                                  Inl e \<Rightarrow> (Inl e, w3)
                                | Inr m \<Rightarrow>
                                    (Inr (Reply 200 (Some (JObj [(''success'', JBool True),
                                            (''message'', JStr ''Message received'')]))),
                                     emit (if mail_ok then LogMailSent else LogMailFailed)
                                       (emit (SendMail m) w3)))))))"

text \<open>The handler: the \<^verbatim>\<open>try\<close> block and its \<^verbatim>\<open>catch\<close>.\<close>

definition contact_post :: "nat \<Rightarrow> string \<Rightarrow> bool \<Rightarrow> json \<Rightarrow> world \<Rightarrow> outcome \<times> world" where
  "contact_post now stamp mail_ok body w =
     (case contact_try now stamp mail_ok body w of
        (Inr r, w') \<Rightarrow> (r, w')
      | (Inl e, w') \<Rightarrow>
          (Reply 500 (Some (JObj [(''success'', JBool False),
             (''message'', JStr ''Submission failed'')])),
           emit (LogSubmissionFailed e) w'))"

section \<open>Vocabulary of the properties\<close>

text \<open>A record whose id is the string \<open>pid\<close>.\<close>

fun has_id :: "string \<Rightarrow> json \<Rightarrow> bool" where
  "has_id pid (JObj ps) = (map_of ps ''id'' = Some (JStr pid))"
| "has_id pid v = False"

text \<open>The effects a request added to the trace, and how often one of them occurs.\<close>

definition effects :: "world \<Rightarrow> world \<Rightarrow> event list" where
  "effects w w' = drop (length (trace w)) (trace w')"

definition count_event :: "event \<Rightarrow> event list \<Rightarrow> nat" where
  "count_event e es = length (filter (\<lambda>x. x = e) es)"

fun is_send :: "event \<Rightarrow> bool" where
  "is_send (SendMail m) = True"
| "is_send e = False"

text \<open>
  Persisting a contact message needs a readable document whose \<open>messages\<close> field is an
  array, and a write that succeeds.
\<close>

definition can_persist :: "world \<Rightarrow> bool" where
  "can_persist w =
     (case disk w of
        None \<Rightarrow> False
      | Some db \<Rightarrow> (case map_of db ''messages'' of Some (JArr ms) \<Rightarrow> writable w | _ \<Rightarrow> False))"

definition one_read_one_write :: "world \<Rightarrow> world \<Rightarrow> bool" where
  "one_read_one_write w w' =
     (count_event ReadDB (effects w w') = 1 \<and> count_event WriteDB (effects w w') = 1)"

fun is_reply :: "nat \<Rightarrow> outcome \<Rightarrow> bool" where
  "is_reply s (Reply s' v) = (s = s')"
| "is_reply s (Uncaught e) = False"

text \<open>The record the contact handler builds from a body that is the object \<open>b\<close>.\<close>

definition contact_record :: "nat \<Rightarrow> string \<Rightarrow> obj \<Rightarrow> json" where
  "contact_record now stamp b =
     new_message now stamp (map_of b ''name'') (map_of b ''phone'') (map_of b ''email'')
       (map_of b ''company'') (map_of b ''message'')"

text \<open>The mail the contact handler renders from a body that is the object \<open>b\<close>.\<close>

definition mail_text :: "obj \<Rightarrow> error + mail" where
  "mail_text b =
     render_mail (map_of b ''name'') (map_of b ''phone'') (map_of b ''email'')
       (map_of b ''company'') (map_of b ''message'')"

text \<open>The two answers of the contact handler.\<close>

definition message_received :: outcome where
  "message_received =
     Reply 200 (Some (JObj [(''success'', JBool True), (''message'', JStr ''Message received'')]))"

definition submission_failed :: outcome where
  "submission_failed =
     Reply 500 (Some (JObj [(''success'', JBool False), (''message'', JStr ''Submission failed'')]))"

text \<open>
  Decimal text: the digits, and the number a text of digits stands for. They say what
  the id of a record is, apart from the function that prints it.
\<close>

definition is_digit :: "char \<Rightarrow> bool" where
  "is_digit c = (c \<in> set ''0123456789'')"

definition digit_value :: "char \<Rightarrow> nat" where
  "digit_value c = of_char c - of_char CHR ''0''"

definition decimal_value :: "string \<Rightarrow> nat" where
  "decimal_value s = foldl (\<lambda>acc c. 10 * acc + digit_value c) 0 s"

subsection \<open>A small document for the concrete cases\<close>

definition example_db :: obj where
  "example_db =
     [(''admin'', JObj [(''username'', JStr ''admin''), (''password'', JStr ''secret'')]),
      (''hero'', JObj [(''title'', JStr ''Hi''), (''tagline'', JStr ''x'')]),
      (''posts'', JArr
         [JObj [(''id'', JStr ''1''), (''title'', JStr ''a''), (''created_at'', JStr ''t1'')],
          JObj [(''id'', JStr ''2''), (''title'', JStr ''b''), (''created_at'', JStr ''t2'')]]),
      (''messages'', JArr [])]"

definition example_world :: world where
  "example_world = \<lparr>disk = Some example_db, writable = True, trace = []\<rparr>"

section \<open>Facts about the helpers\<close>

lemma toString_nat_nonempty: "toString_nat n \<noteq> []"
  by (subst toString_nat.simps) simp

text \<open>
  The printed number is its decimal representation: digits only, no leading zero, and
  it reads back as the number, so different numbers have different texts.
\<close>

lemma digit_chars: "map digit_char [0, 1, 2, 3, 4, 5, 6, 7, 8, 9] = ''0123456789''"
  by code_simp

lemma digit_values: "map digit_value ''0123456789'' = [0, 1, 2, 3, 4, 5, 6, 7, 8, 9]"
  by code_simp

lemma digit_char_cases:
  assumes "d < 10"
  shows "is_digit (digit_char d) \<and> digit_value (digit_char d) = d
    \<and> (digit_char d = CHR ''0'' \<longrightarrow> d = 0)"
proof -
  from assms have "d \<in> {0, 1, 2, 3, 4, 5, 6, 7, 8, 9}" by auto
  then show ?thesis
    using digit_chars digit_values by (auto simp: is_digit_def)
qed

lemma toString_nat_small: "n < 10 \<Longrightarrow> toString_nat n = [digit_char n]"
  by (subst toString_nat.simps) simp

lemma toString_nat_large:
  "10 \<le> n \<Longrightarrow> toString_nat n = toString_nat (n div 10) @ [digit_char (n mod 10)]"
  by (subst toString_nat.simps) simp

lemma toString_nat_digits: "list_all is_digit (toString_nat n)"
proof (induction n rule: toString_nat.induct)
  case (1 n)
  have d: "is_digit (digit_char (n mod 10))"
    using digit_char_cases [of "n mod 10"] by simp
  show ?case
  proof (cases "10 \<le> n")
    case True
    with 1 have "list_all is_digit (toString_nat (n div 10))" by simp
    with d show ?thesis by (simp add: toString_nat_large [OF True])
  next
    case False
    with d show ?thesis by (simp add: toString_nat_small)
  qed
qed

lemma decimal_value_snoc: "decimal_value (s @ [c]) = 10 * decimal_value s + digit_value c"
  by (simp add: decimal_value_def)

lemma decimal_value_toString_nat: "decimal_value (toString_nat n) = n"
proof (induction n rule: toString_nat.induct)
  case (1 n)
  have d: "digit_value (digit_char (n mod 10)) = n mod 10"
    using digit_char_cases [of "n mod 10"] by simp
  show ?case
  proof (cases "10 \<le> n")
    case True
    with 1 have "decimal_value (toString_nat (n div 10)) = n div 10" by simp
    with d show ?thesis
      by (simp add: toString_nat_large [OF True] decimal_value_snoc)
  next
    case False
    then have "toString_nat n = [] @ [digit_char n]" by (simp add: toString_nat_small)
    with False d show ?thesis
      by (simp only: decimal_value_snoc) (simp add: decimal_value_def)
  qed
qed

lemma toString_nat_inject: "toString_nat m = toString_nat n \<Longrightarrow> m = n"
  by (metis decimal_value_toString_nat)

lemma toString_nat_no_leading_zero:
  "toString_nat n = ''0'' \<or> hd (toString_nat n) \<noteq> CHR ''0''"
proof (induction n rule: toString_nat.induct)
  case (1 n)
  show ?case
  proof (cases "10 \<le> n")
    case True
    then have pos: "n div 10 \<noteq> 0" by simp
    have ne: "toString_nat (n div 10) \<noteq> []" by (rule toString_nat_nonempty)
    have zero: "decimal_value ''0'' = 0"
      using digit_values by (simp add: decimal_value_def)
    have "toString_nat (n div 10) \<noteq> ''0''"
    proof
      assume "toString_nat (n div 10) = ''0''"
      then have "decimal_value (toString_nat (n div 10)) = 0"
        using zero by simp
      with pos show False by (simp add: decimal_value_toString_nat)
    qed
    with 1 True have "hd (toString_nat (n div 10)) \<noteq> CHR ''0''" by simp
    with ne show ?thesis by (simp add: toString_nat_large [OF True])
  next
    case False
    then have small: "n < 10" by simp
    with digit_char_cases [of n] have "digit_char n = CHR ''0'' \<longrightarrow> n = 0" by simp
    moreover have "digit_char 0 = CHR ''0''" using digit_chars by simp
    ultimately show ?thesis by (auto simp: toString_nat_small [OF small])
  qed
qed

text \<open>Zero among the safe integers.\<close>

lemma int_of_zero: "int_of (safe_integer_of 0) = 0"
  by (simp add: safe_integer_of_inverse)

lemma int_of_eq_zero: "(int_of n = 0) = (n = safe_integer_of 0)"
  using int_of_zero int_of_inverse [of n] by auto

text \<open>
  Reading a property of a spread: the source's value where the source has the property,
  the target's otherwise.
\<close>

lemma map_of_assign:
  "distinct (map fst src) \<Longrightarrow>
   map_of (assign target src) k =
     (case map_of src k of Some v \<Rightarrow> Some v | None \<Rightarrow> map_of target k)"
proof (induction src arbitrary: target)
  case Nil
  then show ?case by (simp add: assign_def)
next
  case (Cons p src)
  obtain k' v' where p: "p = (k', v')" by (cases p)
  from Cons.prems p have notin: "k' \<notin> fst ` set src" and d: "distinct (map fst src)"
    by auto
  have step: "assign target (p # src) = assign (AList.update k' v' target) src"
    by (simp add: assign_def p)
  have none: "map_of src k' = None"
    using notin by (simp add: map_of_eq_None_iff)
  show ?case
    unfolding step Cons.IH [OF d]
    using none by (auto simp: p update_conv' split: option.splits)
qed

text \<open>Strict equality with a string holds for that very string only.\<close>

lemma strict_eq_string: "strict_eq v (Some (JStr s)) = (v = Some (JStr s))"
proof (cases v)
  case None
  then show ?thesis by simp
next
  case (Some x)
  then show ?thesis by (cases x) auto
qed

lemma id_is_has_id: "x \<noteq> JNull \<Longrightarrow> id_is pid x = Inr (has_id pid x)"
  by (cases x) (auto simp: id_is_def get_prop_def strict_eq_string)

lemma findIndex_first:
  "\<forall>x \<in> set pre. x \<noteq> JNull \<and> \<not> has_id pid x \<Longrightarrow> has_id pid item \<Longrightarrow>
   findIndex (pre @ item # post) pid = Inr (Some (length pre))"
proof (induction pre)
  case Nil
  then have "item \<noteq> JNull" by auto
  with Nil show ?case by (simp add: id_is_has_id)
next
  case (Cons x pre)
  then show ?case by (simp add: id_is_has_id)
qed

lemma findIndex_none:
  "\<forall>x \<in> set items. x \<noteq> JNull \<and> \<not> has_id pid x \<Longrightarrow> findIndex items pid = Inr None"
  by (induction items) (auto simp: id_is_has_id)

text \<open>
  The index that \<open>findIndex\<close> gives is inside the list, so the update route reads
  \<open>items ! index\<close> in range.
\<close>

lemma findIndex_bound: "findIndex items pid = Inr (Some i) \<Longrightarrow> i < length items"
  by (induction items arbitrary: i) (auto split: sum.splits if_splits)

lemma filter_not_id_filter:
  "JNull \<notin> set items \<Longrightarrow>
   filter_not_id items pid = Inr (filter (\<lambda>x. \<not> has_id pid x) items)"
  by (induction items) (auto simp: id_is_has_id)

text \<open>The generic create never answers and never writes, whatever it is given.\<close>

lemma crud_post_never_replies:
  "fst (crud_post resource now body w) = Uncaught (if disk w = None then ReadFailed else TypeError)
   \<and> snd (crud_post resource now body w) = emit ReadDB w"
  by (simp add: crud_post_def readDB_def new_Error_toISOString_def split: option.splits)

section \<open>The claims\<close>

text \<open>
  C1. Create on a collection resource should return the created record and a later
  List should include it. The handler throws instead: with the example document,
  \<^verbatim>\<open>POST /api/posts {"title":"Hello"}\<close> ends in a TypeError raised by
  \<^verbatim>\<open>new Error().toISOString()\<close> after the read and before any write, no record is
  returned, and the following \<^verbatim>\<open>GET /api/posts\<close> answers with the two old posts only.
\<close>

theorem crud_post_hello_throws:
  "crud_post ''posts'' 42 (JObj [(''title'', JStr ''Hello'')]) example_world
     = (Uncaught TypeError, emit ReadDB example_world)
   \<and> disk (emit ReadDB example_world) = Some example_db
   \<and> fst (crud_get ''posts'' (emit ReadDB example_world))
       = Reply 200 (Some (JArr
           [JObj [(''id'', JStr ''1''), (''title'', JStr ''a''), (''created_at'', JStr ''t1'')],
            JObj [(''id'', JStr ''2''), (''title'', JStr ''b''), (''created_at'', JStr ''t2'')]]))"
  by (simp add: crud_post_def crud_get_def readDB_def new_Error_toISOString_def
      example_world_def example_db_def emit_def)

text \<open>
  C2. Update of an existing id is a shallow merge. The collection is written as
  \<open>pre @ JObj old # post\<close>, where \<open>old\<close> is the first record whose id is the path
  parameter. Then \<^verbatim>\<open>PUT /api/{resource}/{id}\<close> with the object \<open>b\<close> answers 200 with the
  merged record, writes it back at the same place with every other record untouched,
  and the merged record has, for every property name, the value of the body where the
  body has the name and the prior value otherwise. In particular id and created_at are
  kept unless the body names them.
\<close>

theorem crud_put_shallow_merge:
  assumes "disk w = Some db"
    and "map_of db resource = Some (JArr (pre @ JObj old # post))"
    and "\<forall>x \<in> set pre. x \<noteq> JNull \<and> \<not> has_id pid x"
    and "map_of old ''id'' = Some (JStr pid)"
    and "distinct (map fst b)"
    and "writable w"
  shows "fst (crud_put resource pid (JObj b) w) = Reply 200 (Some (JObj (assign old b)))
    \<and> disk (snd (crud_put resource pid (JObj b) w))
        = Some (AList.update resource (JArr (pre @ JObj (assign old b) # post)) db)
    \<and> (\<forall>k. map_of (assign old b) k
          = (case map_of b k of Some v \<Rightarrow> Some v | None \<Rightarrow> map_of old k))
    \<and> (map_of b ''id'' = None \<longrightarrow> map_of (assign old b) ''id'' = Some (JStr pid))
    \<and> (map_of b ''created_at'' = None
          \<longrightarrow> map_of (assign old b) ''created_at'' = map_of old ''created_at'')"
proof -
  have found: "findIndex (pre @ JObj old # post) pid = Inr (Some (length pre))"
    using assms(3,4) by (intro findIndex_first) simp_all
  have run: "crud_put resource pid (JObj b) w
      = (Reply 200 (Some (JObj (assign old b))),
         emit WriteDB (emit ReadDB w\<lparr>disk := Some (AList.update resource
           (JArr (pre @ JObj (assign old b) # post)) db)\<rparr>))"
    using assms(1,2,6) found
    by (simp add: crud_put_def readDB_def writeDB_def emit_def spread2_def Let_def)
  have look: "\<And>k. map_of (assign old b) k
      = (case map_of b k of Some v \<Rightarrow> Some v | None \<Rightarrow> map_of old k)"
    using assms(5) by (rule map_of_assign)
  show ?thesis
    using assms(4) by (simp add: run look emit_def)
qed

text \<open>The update of post 2 of the example document, with a new title and a new property.\<close>

theorem crud_put_shallow_merge_witness:
  "fst (crud_put ''posts'' ''2'' (JObj [(''title'', JStr ''Updated''), (''views'', JNum (safe_integer_of 7))]) example_world)
     = Reply 200 (Some (JObj [(''id'', JStr ''2''), (''title'', JStr ''Updated''),
         (''created_at'', JStr ''t2''), (''views'', JNum (safe_integer_of 7))]))
   \<and> disk (snd (crud_put ''posts'' ''2'' (JObj [(''title'', JStr ''Updated''), (''views'', JNum (safe_integer_of 7))])
         example_world))
     = Some [(''admin'', JObj [(''username'', JStr ''admin''), (''password'', JStr ''secret'')]),
         (''hero'', JObj [(''title'', JStr ''Hi''), (''tagline'', JStr ''x'')]),
         (''posts'', JArr
            [JObj [(''id'', JStr ''1''), (''title'', JStr ''a''), (''created_at'', JStr ''t1'')],
             JObj [(''id'', JStr ''2''), (''title'', JStr ''Updated''),
               (''created_at'', JStr ''t2''), (''views'', JNum (safe_integer_of 7))]]),
         (''messages'', JArr [])]"
proof -
  let ?first = "JObj [(''id'', JStr ''1''), (''title'', JStr ''a''), (''created_at'', JStr ''t1'')]"
  let ?old = "[(''id'', JStr ''2''), (''title'', JStr ''b''), (''created_at'', JStr ''t2'')]"
  let ?b = "[(''title'', JStr ''Updated''), (''views'', JNum (safe_integer_of 7))]"
  have h1: "disk example_world = Some example_db"
    by (simp add: example_world_def)
  have h2: "map_of example_db ''posts'' = Some (JArr ([?first] @ JObj ?old # []))"
    by (simp add: example_db_def)
  have h3: "\<forall>x \<in> set [?first]. x \<noteq> JNull \<and> \<not> has_id ''2'' x"
    by simp
  have h4: "map_of ?old ''id'' = Some (JStr ''2'')"
    by simp
  have h5: "distinct (map fst ?b)"
    by simp
  have h6: "writable example_world"
    by (simp add: example_world_def)
  from crud_put_shallow_merge [OF h1 h2 h3 h4 h5 h6]
  show ?thesis
    by (simp add: assign_def example_db_def)
qed

text \<open>
  C3. Update with an id that no record of the collection has answers 404 with
  \<^verbatim>\<open>{"error":"Not found"}\<close> and writes nothing: the request's only effect is the read,
  the document is the same, and List answers as before.
\<close>

theorem crud_put_unknown_id:
  assumes "disk w = Some db"
    and "map_of db resource = Some (JArr items)"
    and "\<forall>x \<in> set items. x \<noteq> JNull \<and> \<not> has_id pid x"
  shows "fst (crud_put resource pid body w) = Reply 404 (Some (JObj [(''error'', JStr ''Not found'')]))
    \<and> disk (snd (crud_put resource pid body w)) = disk w
    \<and> effects w (snd (crud_put resource pid body w)) = [ReadDB]
    \<and> fst (crud_get resource (snd (crud_put resource pid body w))) = fst (crud_get resource w)"
proof -
  have none: "findIndex items pid = Inr None"
    using assms(3) by (rule findIndex_none)
  have run: "crud_put resource pid body w
      = (Reply 404 (Some (JObj [(''error'', JStr ''Not found'')])), emit ReadDB w)"
    using assms(1,2) none by (simp add: crud_put_def readDB_def)
  show ?thesis
    using assms(1) by (simp add: run emit_def effects_def crud_get_def readDB_def)
qed

text \<open>No post of the example document has id 3.\<close>

theorem crud_put_unknown_id_witness:
  "fst (crud_put ''posts'' ''3'' (JObj [(''title'', JStr ''Updated'')]) example_world)
     = Reply 404 (Some (JObj [(''error'', JStr ''Not found'')]))
   \<and> disk (snd (crud_put ''posts'' ''3'' (JObj [(''title'', JStr ''Updated'')]) example_world))
     = Some example_db
   \<and> effects example_world
        (snd (crud_put ''posts'' ''3'' (JObj [(''title'', JStr ''Updated'')]) example_world))
     = [ReadDB]"
proof -
  let ?items = "[JObj [(''id'', JStr ''1''), (''title'', JStr ''a''), (''created_at'', JStr ''t1'')],
                 JObj [(''id'', JStr ''2''), (''title'', JStr ''b''), (''created_at'', JStr ''t2'')]]"
  have h1: "disk example_world = Some example_db"
    by (simp add: example_world_def)
  have h2: "map_of example_db ''posts'' = Some (JArr ?items)"
    by (simp add: example_db_def)
  have h3: "\<forall>x \<in> set ?items. x \<noteq> JNull \<and> \<not> has_id ''3'' x"
    by simp
  from crud_put_unknown_id [OF h1 h2 h3, of "JObj [(''title'', JStr ''Updated'')]"]
  show ?thesis
    by (simp add: h1)
qed

text \<open>One run of Delete on a collection of records.\<close>

lemma crud_delete_run:
  assumes "disk w = Some db"
    and "map_of db resource = Some (JArr items)"
    and "JNull \<notin> set items"
    and "writable w"
  shows "crud_delete resource pid w
      = (Reply 200 (Some (JObj [(''success'', JBool True)])),
         emit WriteDB (emit ReadDB w\<lparr>disk := Some (AList.update resource
           (JArr (filter (\<lambda>x. \<not> has_id pid x) items)) db)\<rparr>))"
  using assms by (simp add: crud_delete_def readDB_def writeDB_def emit_def filter_not_id_filter)

text \<open>
  C4. Delete answers \<^verbatim>\<open>{"success":true}\<close> whether or not a record matched, leaves in
  the collection exactly the records whose id is not the path parameter, in their prior
  order, and is idempotent: a second Delete of the same id succeeds again and leaves the
  document as the first one left it.
\<close>

theorem crud_delete_idempotent:
  assumes "disk w = Some db"
    and "map_of db resource = Some (JArr items)"
    and "JNull \<notin> set items"
    and "writable w"
  shows "fst (crud_delete resource pid w) = Reply 200 (Some (JObj [(''success'', JBool True)]))
    \<and> disk (snd (crud_delete resource pid w))
        = Some (AList.update resource (JArr (filter (\<lambda>x. \<not> has_id pid x) items)) db)
    \<and> fst (crud_delete resource pid (snd (crud_delete resource pid w)))
        = Reply 200 (Some (JObj [(''success'', JBool True)]))
    \<and> disk (snd (crud_delete resource pid (snd (crud_delete resource pid w))))
        = disk (snd (crud_delete resource pid w))"
proof -
  let ?kept = "filter (\<lambda>x. \<not> has_id pid x) items"
  let ?db1 = "AList.update resource (JArr ?kept) db"
  define w1 where "w1 = snd (crud_delete resource pid w)"
  have first: "fst (crud_delete resource pid w) = Reply 200 (Some (JObj [(''success'', JBool True)]))"
    by (simp add: crud_delete_run [OF assms])
  have disk1: "disk w1 = Some ?db1"
    by (simp add: w1_def crud_delete_run [OF assms] emit_def)
  have writable1: "writable w1"
    using assms(4) by (simp add: w1_def crud_delete_run [OF assms] emit_def)
  have look: "map_of ?db1 resource = Some (JArr ?kept)"
    by (simp add: update_conv')
  have kept_ok: "JNull \<notin> set ?kept"
    using assms(3) by simp
  have again: "filter (\<lambda>x. \<not> has_id pid x) ?kept = ?kept"
    by simp
  have same: "AList.update resource (JArr ?kept) ?db1 = ?db1"
    by simp
  note second = crud_delete_run [OF disk1 look kept_ok writable1, of pid]
  have "fst (crud_delete resource pid w1) = Reply 200 (Some (JObj [(''success'', JBool True)]))"
    by (simp add: second)
  moreover have "disk (snd (crud_delete resource pid w1)) = disk w1"
    by (simp add: second emit_def disk1 again)
  ultimately show ?thesis
    using first disk1 by (simp add: w1_def)
qed

text \<open>Deleting post 1 of the example document, twice.\<close>

theorem crud_delete_idempotent_witness:
  "fst (crud_delete ''posts'' ''1'' example_world) = Reply 200 (Some (JObj [(''success'', JBool True)]))
   \<and> map_option (\<lambda>db. map_of db ''posts'') (disk (snd (crud_delete ''posts'' ''1'' example_world)))
     = Some (Some (JArr
         [JObj [(''id'', JStr ''2''), (''title'', JStr ''b''), (''created_at'', JStr ''t2'')]]))
   \<and> fst (crud_delete ''posts'' ''1'' (snd (crud_delete ''posts'' ''1'' example_world)))
     = Reply 200 (Some (JObj [(''success'', JBool True)]))
   \<and> disk (snd (crud_delete ''posts'' ''1'' (snd (crud_delete ''posts'' ''1'' example_world))))
     = disk (snd (crud_delete ''posts'' ''1'' example_world))"
proof -
  let ?items = "[JObj [(''id'', JStr ''1''), (''title'', JStr ''a''), (''created_at'', JStr ''t1'')],
                 JObj [(''id'', JStr ''2''), (''title'', JStr ''b''), (''created_at'', JStr ''t2'')]]"
  have h1: "disk example_world = Some example_db"
    by (simp add: example_world_def)
  have h2: "map_of example_db ''posts'' = Some (JArr ?items)"
    by (simp add: example_db_def)
  have h3: "JNull \<notin> set ?items"
    by simp
  have h4: "writable example_world"
    by (simp add: example_world_def)
  from crud_delete_idempotent [OF h1 h2 h3 h4, of "''1''"]
  show ?thesis
    by (simp add: update_conv')
qed

text \<open>The effects of a request whose trace is the old one with new events behind it.\<close>

lemma effects_after: "effects w (w\<lparr>disk := d, trace := trace w @ es\<rparr>) = es"
  and effects_after_trace: "effects w (w\<lparr>trace := trace w @ es\<rparr>) = es"
  and effects_same: "effects w w = []"
  by (simp_all add: effects_def)

text \<open>
  Contact intake, in four parts: the answer and the document do not depend on the
  outcome of the send; a request that reached the send answers success; a request
  that could persist and whose mail could be rendered performs exactly the read, the
  write, the send and the log entry of the send's outcome; a request that could not
  persist answers failure and never reaches the send.
\<close>

lemma contact_post_same_reply:
  "fst (contact_post now stamp True body w) = fst (contact_post now stamp False body w)
   \<and> disk (snd (contact_post now stamp True body w)) = disk (snd (contact_post now stamp False body w))"
  by (simp add: contact_post_def contact_try_def readDB_def writeDB_def emit_def Let_def
      split: sum.splits option.splits prod.splits)

lemma contact_post_sent:
  "list_ex is_send (effects w (snd (contact_post now stamp mail_ok body w)))
   \<Longrightarrow> fst (contact_post now stamp mail_ok body w) = message_received"
  by (auto simp: contact_post_def contact_try_def readDB_def writeDB_def emit_def Let_def
      message_received_def effects_after effects_after_trace effects_same
      split: sum.splits option.splits prod.splits if_splits)

lemma contact_post_not_persisted:
  "\<not> can_persist w
   \<Longrightarrow> fst (contact_post now stamp mail_ok body w) = submission_failed
     \<and> \<not> list_ex is_send (effects w (snd (contact_post now stamp mail_ok body w)))"
  by (auto simp: contact_post_def contact_try_def readDB_def writeDB_def emit_def Let_def
      submission_failed_def can_persist_def push_def effects_after effects_after_trace effects_same
      split: sum.splits option.splits prod.splits if_splits json.splits)

lemma contact_post_persisted_and_sent:
  "can_persist w \<Longrightarrow> mail_text b = Inr m
   \<Longrightarrow> fst (contact_post now stamp mail_ok (JObj b) w) = message_received
     \<and> effects w (snd (contact_post now stamp mail_ok (JObj b) w))
         = [ReadDB, WriteDB, LogStored, SendMail m, if mail_ok then LogMailSent else LogMailFailed]"
  by (auto simp: contact_post_def contact_try_def readDB_def writeDB_def emit_def Let_def
      message_received_def can_persist_def push_def mail_text_def effects_after
      split: option.splits json.splits)

text \<open>
  C5. A successful persist should yield the success answer, as the comment of line 170
  says (\<^verbatim>\<open>We still send success to user because DB storage succeeded\<close>). The facts
  above hold for every request: the outcome of the send never changes the answer, and a
  failed persist answers 500 without a send. But the template literals of the mail
  stand inside the same \<^verbatim>\<open>try\<close>, after the write: with the example document,
  \<^verbatim>\<open>POST /api/contact {"name":{"toString":"x"},"email":"a@b.c","message":"hi"}\<close> can
  persist and does, the record is in the document, then line 152 throws a TypeError on
  the name, no send is attempted, and the \<^verbatim>\<open>catch\<close> answers
  \<^verbatim>\<open>500 {"success":false,"message":"Submission failed"}\<close>.
\<close>

theorem contact_post_unrenderable_name:
  "can_persist example_world
   \<and> fst (contact_post 42 ''2026-11-03T00:00:00.000Z'' True
         (JObj [(''name'', JObj [(''toString'', JStr ''x'')]), (''email'', JStr ''a@b.c''),
                (''message'', JStr ''hi'')])
         example_world) = submission_failed
   \<and> disk (snd (contact_post 42 ''2026-11-03T00:00:00.000Z'' True
         (JObj [(''name'', JObj [(''toString'', JStr ''x'')]), (''email'', JStr ''a@b.c''),
                (''message'', JStr ''hi'')])
         example_world))
     = Some [(''admin'', JObj [(''username'', JStr ''admin''), (''password'', JStr ''secret'')]),
         (''hero'', JObj [(''title'', JStr ''Hi''), (''tagline'', JStr ''x'')]),
         (''posts'', JArr
            [JObj [(''id'', JStr ''1''), (''title'', JStr ''a''), (''created_at'', JStr ''t1'')],
             JObj [(''id'', JStr ''2''), (''title'', JStr ''b''), (''created_at'', JStr ''t2'')]]),
         (''messages'', JArr
            [JObj [(''id'', JStr ''42''), (''name'', JObj [(''toString'', JStr ''x'')]),
               (''phone'', JStr ''N/A''), (''email'', JStr ''a@b.c''), (''company'', JStr ''N/A''),
               (''message'', JStr ''hi''), (''created_at'', JStr ''2026-11-03T00:00:00.000Z'')]])]
   \<and> effects example_world
        (snd (contact_post 42 ''2026-11-03T00:00:00.000Z'' True
          (JObj [(''name'', JObj [(''toString'', JStr ''x'')]), (''email'', JStr ''a@b.c''),
                 (''message'', JStr ''hi'')])
          example_world))
     = [ReadDB, WriteDB, LogStored, LogSubmissionFailed TypeError]"
proof -
  have id: "toString_nat 42 = ''42''"
    by code_simp
  show ?thesis
    by (simp add: can_persist_def contact_post_def contact_try_def readDB_def writeDB_def
        emit_def push_def Let_def example_world_def example_db_def effects_def
        submission_failed_def new_message_def defined_props_def map_filter_simps or_default_def
        render_mail_def template_def id)
qed

text \<open>What the stored contact record holds under each of its names.\<close>

lemma new_message_fields:
  "get_prop (Some (new_message now stamp name phone email company message)) ''id''
     = Inr (Some (JStr (toString_nat now)))"
  "get_prop (Some (new_message now stamp name phone email company message)) ''name''
     = Inr name"
  "get_prop (Some (new_message now stamp name phone email company message)) ''phone''
     = Inr (Some (or_default phone (JStr ''N/A'')))"
  "get_prop (Some (new_message now stamp name phone email company message)) ''email''
     = Inr email"
  "get_prop (Some (new_message now stamp name phone email company message)) ''company''
     = Inr (Some (or_default company (JStr ''N/A'')))"
  "get_prop (Some (new_message now stamp name phone email company message)) ''message''
     = Inr message"
  "get_prop (Some (new_message now stamp name phone email company message)) ''created_at''
     = Inr (Some (JStr stamp))"
  by (cases name; cases email; cases message;
      simp add: new_message_def get_prop_def defined_props_def map_filter_simps)+

text \<open>
  \<^verbatim>\<open>v || d\<close> by the value of \<open>v\<close>: the default for a missing property and for the
  five falsy values, the value itself for everything else.
\<close>

lemma or_default_falsy:
  "v = None \<or> v = Some JNull \<or> v = Some (JBool False) \<or> v = Some (JNum (safe_integer_of 0))
     \<or> v = Some (JStr [])
   \<Longrightarrow> or_default v d = d"
  by (auto simp: or_default_def int_of_zero)

lemma or_default_verbatim:
  assumes "v \<noteq> None" and "v \<noteq> Some JNull" and "v \<noteq> Some (JBool False)"
    and "v \<noteq> Some (JNum (safe_integer_of 0))" and "v \<noteq> Some (JStr [])"
  shows "Some (or_default v d) = v"
proof (cases v)
  case None
  with assms show ?thesis by simp
next
  case (Some x)
  with assms show ?thesis
    by (cases x) (auto simp: or_default_def int_of_eq_zero)
qed

text \<open>The document after a contact request that could persist, whatever happens to the mail.\<close>

lemma contact_post_disk:
  assumes "disk w = Some db"
    and "map_of db ''messages'' = Some (JArr ms)"
    and "writable w"
  shows "disk (snd (contact_post now stamp mail_ok (JObj b) w))
     = Some (AList.update ''messages'' (JArr (ms @ [contact_record now stamp b])) db)"
  using assms
  by (simp add: contact_post_def contact_try_def readDB_def writeDB_def emit_def Let_def push_def
      contact_record_def split: sum.splits)

text \<open>
  C6, as stated, fails for a value that is present and falsy: the body
  \<^verbatim>\<open>{"name":"Ann","phone":false,"company":0}\<close> has a phone and a company, and the record
  stored in the example document holds \<open>N/A\<close> for both, not the values.
\<close>

theorem contact_post_falsy_phone_not_verbatim:
  "get_prop (Some (JObj [(''name'', JStr ''Ann''), (''phone'', JBool False),
       (''company'', JNum (safe_integer_of 0))])) ''phone'' = Inr (Some (JBool False))
   \<and> get_prop (Some (JObj [(''name'', JStr ''Ann''), (''phone'', JBool False),
       (''company'', JNum (safe_integer_of 0))])) ''company'' = Inr (Some (JNum (safe_integer_of 0)))
   \<and> disk (snd (contact_post 42 ''2026-11-03T00:00:00.000Z'' True
       (JObj [(''name'', JStr ''Ann''), (''phone'', JBool False),
              (''company'', JNum (safe_integer_of 0))]) example_world))
     = Some [(''admin'', JObj [(''username'', JStr ''admin''), (''password'', JStr ''secret'')]),
         (''hero'', JObj [(''title'', JStr ''Hi''), (''tagline'', JStr ''x'')]),
         (''posts'', JArr
            [JObj [(''id'', JStr ''1''), (''title'', JStr ''a''), (''created_at'', JStr ''t1'')],
             JObj [(''id'', JStr ''2''), (''title'', JStr ''b''), (''created_at'', JStr ''t2'')]]),
         (''messages'', JArr
            [JObj [(''id'', JStr ''42''), (''name'', JStr ''Ann''), (''phone'', JStr ''N/A''),
               (''company'', JStr ''N/A''),
               (''created_at'', JStr ''2026-11-03T00:00:00.000Z'')]])]
   \<and> JStr ''N/A'' \<noteq> JBool False
   \<and> JStr ''N/A'' \<noteq> JNum (safe_integer_of 0)"
proof -
  have id: "toString_nat 42 = ''42''"
    by code_simp
  show ?thesis
    by (simp add: get_prop_def contact_post_def contact_try_def readDB_def writeDB_def emit_def
        push_def Let_def example_world_def example_db_def new_message_def defined_props_def
        map_filter_simps or_default_def int_of_zero id split: sum.splits)
qed

text \<open>
  C6, amended. A contact submission whose body is the object \<open>b\<close> appends one record
  to the \<open>messages\<close> collection. Its id is the decimal text of the clock reading
  \<^verbatim>\<open>Date.now()\<close>: not empty, digits only, and it reads back as that reading, so two
  readings that differ give two ids that differ. Its created_at is the text of the
  clock. Its name, email and message are those of the body, left out where the body
  has none. Its phone is the literal \<open>N/A\<close> when the body has no phone or a phone that
  is \<^verbatim>\<open>null\<close>, \<^verbatim>\<open>false\<close>, \<^verbatim>\<open>0\<close> or the empty string, and the body's phone itself for
  every other value; the same holds for company.
\<close>

theorem contact_post_stores_record:
  assumes "disk w = Some db"
    and "map_of db ''messages'' = Some (JArr ms)"
    and "writable w"
  shows "disk (snd (contact_post now stamp mail_ok (JObj b) w))
       = Some (AList.update ''messages'' (JArr (ms @ [contact_record now stamp b])) db)
    \<and> get_prop (Some (contact_record now stamp b)) ''id'' = Inr (Some (JStr (toString_nat now)))
    \<and> toString_nat now \<noteq> []
    \<and> list_all is_digit (toString_nat now)
    \<and> decimal_value (toString_nat now) = now
    \<and> get_prop (Some (contact_record now stamp b)) ''created_at'' = Inr (Some (JStr stamp))
    \<and> get_prop (Some (contact_record now stamp b)) ''name'' = Inr (map_of b ''name'')
    \<and> get_prop (Some (contact_record now stamp b)) ''email'' = Inr (map_of b ''email'')
    \<and> get_prop (Some (contact_record now stamp b)) ''message'' = Inr (map_of b ''message'')
    \<and> (map_of b ''phone'' = None \<or> map_of b ''phone'' = Some JNull
         \<or> map_of b ''phone'' = Some (JBool False)
         \<or> map_of b ''phone'' = Some (JNum (safe_integer_of 0))
         \<or> map_of b ''phone'' = Some (JStr [])
       \<longrightarrow> get_prop (Some (contact_record now stamp b)) ''phone'' = Inr (Some (JStr ''N/A'')))
    \<and> (map_of b ''phone'' \<noteq> None \<and> map_of b ''phone'' \<noteq> Some JNull
         \<and> map_of b ''phone'' \<noteq> Some (JBool False)
         \<and> map_of b ''phone'' \<noteq> Some (JNum (safe_integer_of 0))
         \<and> map_of b ''phone'' \<noteq> Some (JStr [])
       \<longrightarrow> get_prop (Some (contact_record now stamp b)) ''phone'' = Inr (map_of b ''phone''))
    \<and> (map_of b ''company'' = None \<or> map_of b ''company'' = Some JNull
         \<or> map_of b ''company'' = Some (JBool False)
         \<or> map_of b ''company'' = Some (JNum (safe_integer_of 0))
         \<or> map_of b ''company'' = Some (JStr [])
       \<longrightarrow> get_prop (Some (contact_record now stamp b)) ''company'' = Inr (Some (JStr ''N/A'')))
    \<and> (map_of b ''company'' \<noteq> None \<and> map_of b ''company'' \<noteq> Some JNull
         \<and> map_of b ''company'' \<noteq> Some (JBool False)
         \<and> map_of b ''company'' \<noteq> Some (JNum (safe_integer_of 0))
         \<and> map_of b ''company'' \<noteq> Some (JStr [])
       \<longrightarrow> get_prop (Some (contact_record now stamp b)) ''company'' = Inr (map_of b ''company''))"
proof -
  note stored = contact_post_disk [OF assms, of now stamp mail_ok b]
  have phone_na: "get_prop (Some (contact_record now stamp b)) ''phone'' = Inr (Some (JStr ''N/A''))"
    if "map_of b ''phone'' = None \<or> map_of b ''phone'' = Some JNull
         \<or> map_of b ''phone'' = Some (JBool False)
         \<or> map_of b ''phone'' = Some (JNum (safe_integer_of 0))
         \<or> map_of b ''phone'' = Some (JStr [])"
    using or_default_falsy [OF that] by (simp add: contact_record_def new_message_fields)
  have company_na: "get_prop (Some (contact_record now stamp b)) ''company'' = Inr (Some (JStr ''N/A''))"
    if "map_of b ''company'' = None \<or> map_of b ''company'' = Some JNull
         \<or> map_of b ''company'' = Some (JBool False)
         \<or> map_of b ''company'' = Some (JNum (safe_integer_of 0))
         \<or> map_of b ''company'' = Some (JStr [])"
    using or_default_falsy [OF that] by (simp add: contact_record_def new_message_fields)
  have phone_kept: "get_prop (Some (contact_record now stamp b)) ''phone'' = Inr (map_of b ''phone'')"
    if "map_of b ''phone'' \<noteq> None" "map_of b ''phone'' \<noteq> Some JNull"
      "map_of b ''phone'' \<noteq> Some (JBool False)"
      "map_of b ''phone'' \<noteq> Some (JNum (safe_integer_of 0))"
      "map_of b ''phone'' \<noteq> Some (JStr [])"
    using or_default_verbatim [OF that] by (simp add: contact_record_def new_message_fields)
  have company_kept: "get_prop (Some (contact_record now stamp b)) ''company'' = Inr (map_of b ''company'')"
    if "map_of b ''company'' \<noteq> None" "map_of b ''company'' \<noteq> Some JNull"
      "map_of b ''company'' \<noteq> Some (JBool False)"
      "map_of b ''company'' \<noteq> Some (JNum (safe_integer_of 0))"
      "map_of b ''company'' \<noteq> Some (JStr [])"
    using or_default_verbatim [OF that] by (simp add: contact_record_def new_message_fields)
  have rest: "get_prop (Some (contact_record now stamp b)) ''id'' = Inr (Some (JStr (toString_nat now)))"
    "get_prop (Some (contact_record now stamp b)) ''created_at'' = Inr (Some (JStr stamp))"
    "get_prop (Some (contact_record now stamp b)) ''name'' = Inr (map_of b ''name'')"
    "get_prop (Some (contact_record now stamp b)) ''email'' = Inr (map_of b ''email'')"
    "get_prop (Some (contact_record now stamp b)) ''message'' = Inr (map_of b ''message'')"
    by (simp_all add: contact_record_def new_message_fields)
  show ?thesis
    using stored rest phone_na company_na phone_kept company_kept
      toString_nat_nonempty [of now] toString_nat_digits [of now] decimal_value_toString_nat [of now]
    by blast
qed

text \<open>
  An inquiry with an empty phone and a company, stored in the example document: the
  phone becomes \<open>N/A\<close>, the company stays.
\<close>

theorem contact_post_stores_record_witness:
  "disk (snd (contact_post 42 ''2026-11-03T00:00:00.000Z'' True
       (JObj [(''name'', JStr ''Ann''), (''phone'', JStr []), (''email'', JStr ''a@b.c''),
              (''company'', JStr ''Acme''), (''message'', JStr ''hi'')]) example_world))
     = Some [(''admin'', JObj [(''username'', JStr ''admin''), (''password'', JStr ''secret'')]),
         (''hero'', JObj [(''title'', JStr ''Hi''), (''tagline'', JStr ''x'')]),
         (''posts'', JArr
            [JObj [(''id'', JStr ''1''), (''title'', JStr ''a''), (''created_at'', JStr ''t1'')],
             JObj [(''id'', JStr ''2''), (''title'', JStr ''b''), (''created_at'', JStr ''t2'')]]),
         (''messages'', JArr
            [JObj [(''id'', JStr ''42''), (''name'', JStr ''Ann''), (''phone'', JStr ''N/A''),
               (''email'', JStr ''a@b.c''), (''company'', JStr ''Acme''), (''message'', JStr ''hi''),
               (''created_at'', JStr ''2026-11-03T00:00:00.000Z'')]])]
   \<and> get_prop (Some (contact_record 42 ''2026-11-03T00:00:00.000Z''
         [(''name'', JStr ''Ann''), (''phone'', JStr []), (''email'', JStr ''a@b.c''),
          (''company'', JStr ''Acme''), (''message'', JStr ''hi'')])) ''phone''
     = Inr (Some (JStr ''N/A''))
   \<and> get_prop (Some (contact_record 42 ''2026-11-03T00:00:00.000Z''
         [(''name'', JStr ''Ann''), (''phone'', JStr []), (''email'', JStr ''a@b.c''),
          (''company'', JStr ''Acme''), (''message'', JStr ''hi'')])) ''company''
     = Inr (Some (JStr ''Acme''))
   \<and> decimal_value ''42'' = 42"
proof -
  let ?b = "[(''name'', JStr ''Ann''), (''phone'', JStr []), (''email'', JStr ''a@b.c''),
             (''company'', JStr ''Acme''), (''message'', JStr ''hi'')]"
  have h1: "disk example_world = Some example_db"
    by (simp add: example_world_def)
  have h2: "map_of example_db ''messages'' = Some (JArr [])"
    by (simp add: example_db_def)
  have h3: "writable example_world"
    by (simp add: example_world_def)
  have id: "toString_nat 42 = ''42''"
    by code_simp
  have phone: "map_of ?b ''phone'' = Some (JStr [])"
    and company: "map_of ?b ''company'' = Some (JStr ''Acme'')"
    by simp_all
  note stored = contact_post_stores_record [OF h1 h2 h3, of 42 "''2026-11-03T00:00:00.000Z''" True ?b]
  from stored phone
  have a: "get_prop (Some (contact_record 42 ''2026-11-03T00:00:00.000Z'' ?b)) ''phone''
      = Inr (Some (JStr ''N/A''))"
    by blast
  from stored company
  have b: "get_prop (Some (contact_record 42 ''2026-11-03T00:00:00.000Z'' ?b)) ''company''
      = Inr (Some (JStr ''Acme''))"
    by simp
  from stored id have c: "decimal_value ''42'' = 42"
    by simp
  from stored have d: "disk (snd (contact_post 42 ''2026-11-03T00:00:00.000Z'' True (JObj ?b)
      example_world))
      = Some (AList.update ''messages''
          (JArr ([] @ [contact_record 42 ''2026-11-03T00:00:00.000Z'' ?b])) example_db)"
    by blast
  show ?thesis
    using a b c
    by (simp add: d example_db_def contact_record_def new_message_def defined_props_def
        map_filter_simps or_default_def id)
qed

text \<open>
  C7. \<^verbatim>\<open>PUT /api/hero\<close> with the object \<open>b\<close> merges \<open>b\<close> over the stored hero, writes the
  merged object into the document and answers with it: a later \<^verbatim>\<open>GET /api/hero\<close> gives
  the same object, each property has the body's value where the body names it and the
  stored value otherwise, and every property name of the stored hero is still there, so
  the answer is never the supplied properties alone.
\<close>

theorem hero_put_full_merge:
  assumes "disk w = Some db"
    and "writable w"
    and "distinct (map fst b)"
  shows "fst (hero_put (JObj b) w)
       = Reply 200 (Some (JObj (assign (props (map_of db ''hero'')) b)))
    \<and> disk (snd (hero_put (JObj b) w))
       = Some (AList.update ''hero'' (JObj (assign (props (map_of db ''hero'')) b)) db)
    \<and> fst (hero_get (snd (hero_put (JObj b) w)))
       = Reply 200 (Some (JObj (assign (props (map_of db ''hero'')) b)))
    \<and> (\<forall>k. map_of (assign (props (map_of db ''hero'')) b) k
          = (case map_of b k of Some v \<Rightarrow> Some v | None \<Rightarrow> map_of (props (map_of db ''hero'')) k))
    \<and> set (map fst (props (map_of db ''hero'')))
         \<subseteq> set (map fst (assign (props (map_of db ''hero'')) b))"
proof -
  let ?old = "props (map_of db ''hero'')"
  let ?new = "assign ?old b"
  have run: "hero_put (JObj b) w
      = (Reply 200 (Some (JObj ?new)),
         emit WriteDB (emit ReadDB w\<lparr>disk := Some (AList.update ''hero'' (JObj ?new) db)\<rparr>))"
    using assms(1,2) by (simp add: hero_put_def readDB_def writeDB_def emit_def spread2_def Let_def)
  have look: "\<And>k. map_of ?new k = (case map_of b k of Some v \<Rightarrow> Some v | None \<Rightarrow> map_of ?old k)"
    using assms(3) by (rule map_of_assign)
  have keys: "set (map fst ?old) \<subseteq> set (map fst ?new)"
  proof
    fix k assume "k \<in> set (map fst ?old)"
    then have "map_of ?old k \<noteq> None"
      by (simp add: map_of_eq_None_iff)
    then have "map_of ?new k \<noteq> None"
      by (simp add: look split: option.splits)
    then show "k \<in> set (map fst ?new)"
      by (simp add: map_of_eq_None_iff)
  qed
  have get: "fst (hero_get (snd (hero_put (JObj b) w))) = Reply 200 (Some (JObj ?new))"
    by (simp add: run hero_get_def readDB_def emit_def update_conv')
  show ?thesis
    using keys get by (simp add: run look emit_def)
qed

text \<open>A new title for the hero of the example document: the tagline stays.\<close>

theorem hero_put_full_merge_witness:
  "fst (hero_put (JObj [(''title'', JStr ''New'')]) example_world)
     = Reply 200 (Some (JObj [(''title'', JStr ''New''), (''tagline'', JStr ''x'')]))
   \<and> fst (hero_get (snd (hero_put (JObj [(''title'', JStr ''New'')]) example_world)))
     = Reply 200 (Some (JObj [(''title'', JStr ''New''), (''tagline'', JStr ''x'')]))"
proof -
  have h1: "disk example_world = Some example_db"
    by (simp add: example_world_def)
  have h2: "writable example_world"
    by (simp add: example_world_def)
  have h3: "distinct (map fst [(''title'', JStr ''New'')])"
    by simp
  from hero_put_full_merge [OF h1 h2 h3]
  show ?thesis
    by (simp add: example_db_def assign_def)
qed

text \<open>The same with the string on the left, as the login handler writes it.\<close>

lemma string_strict_eq: "strict_eq (Some (JStr s)) v = (v = Some (JStr s))"
proof (cases v)
  case None
  then show ?thesis by simp
next
  case (Some x)
  then show ?thesis by (cases x) auto
qed

text \<open>
  C8. With a stored admin pair of two strings, \<^verbatim>\<open>POST /api/login\<close> answers 200 with
  \<^verbatim>\<open>{"success":true}\<close> exactly when the body's username and password are those two
  strings, character for character; anything else (another string, another case, a
  value that is not a string, a missing property) is answered with 401 and
  \<^verbatim>\<open>{"success":false,"message":"Invalid credentials"}\<close>.
\<close>

theorem login_exact_match:
  assumes "disk w = Some db"
    and "map_of db ''admin'' = Some (JObj admin)"
    and "map_of admin ''username'' = Some (JStr u)"
    and "map_of admin ''password'' = Some (JStr p)"
  shows "fst (login (JObj b) w)
     = (if map_of b ''username'' = Some (JStr u) \<and> map_of b ''password'' = Some (JStr p)
        then Reply 200 (Some (JObj [(''success'', JBool True)]))
        else Reply 401 (Some (JObj [(''success'', JBool False),
               (''message'', JStr ''Invalid credentials'')])))"
  using assms by (simp add: login_def readDB_def string_strict_eq)

text \<open>The right pair, a username in another case, and a missing password.\<close>

theorem login_exact_match_witness:
  "fst (login (JObj [(''username'', JStr ''admin''), (''password'', JStr ''secret'')]) example_world)
     = Reply 200 (Some (JObj [(''success'', JBool True)]))
   \<and> fst (login (JObj [(''username'', JStr ''Admin''), (''password'', JStr ''secret'')]) example_world)
     = Reply 401 (Some (JObj [(''success'', JBool False),
         (''message'', JStr ''Invalid credentials'')]))
   \<and> fst (login (JObj [(''username'', JStr ''admin'')]) example_world)
     = Reply 401 (Some (JObj [(''success'', JBool False),
         (''message'', JStr ''Invalid credentials'')]))"
proof -
  let ?admin = "[(''username'', JStr ''admin''), (''password'', JStr ''secret'')]"
  have h1: "disk example_world = Some example_db"
    by (simp add: example_world_def)
  have h2: "map_of example_db ''admin'' = Some (JObj ?admin)"
    by (simp add: example_db_def)
  have h3: "map_of ?admin ''username'' = Some (JStr ''admin'')"
    by simp
  have h4: "map_of ?admin ''password'' = Some (JStr ''secret'')"
    by simp
  note match = login_exact_match [OF h1 h2 h3 h4]
  show ?thesis
    by (simp add: match)
qed

text \<open>
  Reads and writes of the three mutating routes that work, by their answer, and the
  top-level fields they leave alone.
\<close>

lemma crud_put_effects:
  "(is_reply 200 (fst (crud_put resource pid body w))
      \<longrightarrow> effects w (snd (crud_put resource pid body w)) = [ReadDB, WriteDB])
   \<and> (is_reply 404 (fst (crud_put resource pid body w))
      \<longrightarrow> effects w (snd (crud_put resource pid body w)) = [ReadDB]
        \<and> disk (snd (crud_put resource pid body w)) = disk w)"
  by (auto simp: crud_put_def readDB_def writeDB_def emit_def Let_def effects_after
      effects_after_trace split: option.splits json.splits sum.splits)

lemma crud_delete_effects:
  "is_reply 200 (fst (crud_delete resource pid w))
   \<Longrightarrow> effects w (snd (crud_delete resource pid w)) = [ReadDB, WriteDB]"
  by (auto simp: crud_delete_def readDB_def writeDB_def emit_def effects_after
      effects_after_trace split: option.splits json.splits sum.splits if_splits)

lemma hero_put_effects:
  "is_reply 200 (fst (hero_put body w))
   \<Longrightarrow> effects w (snd (hero_put body w)) = [ReadDB, WriteDB]"
  by (auto simp: hero_put_def readDB_def writeDB_def emit_def Let_def effects_after
      effects_after_trace split: option.splits if_splits)

lemma crud_put_frame:
  "disk w = Some db \<Longrightarrow> k \<noteq> resource
   \<Longrightarrow> map_option (\<lambda>d. map_of d k) (disk (snd (crud_put resource pid body w))) = Some (map_of db k)"
  by (auto simp: crud_put_def readDB_def writeDB_def emit_def Let_def update_conv'
      split: option.splits json.splits sum.splits)

lemma crud_delete_frame:
  "disk w = Some db \<Longrightarrow> k \<noteq> resource
   \<Longrightarrow> map_option (\<lambda>d. map_of d k) (disk (snd (crud_delete resource pid w))) = Some (map_of db k)"
  by (auto simp: crud_delete_def readDB_def writeDB_def emit_def update_conv'
      split: option.splits json.splits sum.splits)

lemma hero_put_frame:
  "disk w = Some db \<Longrightarrow> k \<noteq> ''hero''
   \<Longrightarrow> map_option (\<lambda>d. map_of d k) (disk (snd (hero_put body w))) = Some (map_of db k)"
  by (auto simp: hero_put_def readDB_def writeDB_def emit_def Let_def update_conv')

text \<open>
  C9, as stated, fails for Update: \<^verbatim>\<open>PUT /api/posts/3\<close> on the example document, where
  no post has id 3, reads the document and answers 404 without writing, so it does not
  perform one read and one write.
\<close>

theorem crud_put_unknown_id_not_one_write:
  "\<not> one_read_one_write example_world
       (snd (crud_put ''posts'' ''3'' (JObj [(''title'', JStr ''Updated'')]) example_world))"
  by (simp add: one_read_one_write_def count_event_def effects_def crud_put_def readDB_def emit_def
      example_world_def example_db_def id_is_def get_prop_def)

text \<open>
  C9, amended. An Update, a Delete or a Singleton Update that answers 200 has performed
  exactly one full-document read followed by one full-document write; an Update that
  answers 404 has performed one read and no write and leaves the document as it was;
  and whatever a request of these three kinds answers, every top-level field of the
  document other than the targeted one has the value it had before.
\<close>

theorem mutations_read_write_frame:
  "(is_reply 200 (fst (crud_put resource pid body w))
      \<longrightarrow> effects w (snd (crud_put resource pid body w)) = [ReadDB, WriteDB]
        \<and> one_read_one_write w (snd (crud_put resource pid body w)))
   \<and> (is_reply 404 (fst (crud_put resource pid body w))
      \<longrightarrow> effects w (snd (crud_put resource pid body w)) = [ReadDB]
        \<and> disk (snd (crud_put resource pid body w)) = disk w)
   \<and> (is_reply 200 (fst (crud_delete resource pid w))
      \<longrightarrow> effects w (snd (crud_delete resource pid w)) = [ReadDB, WriteDB]
        \<and> one_read_one_write w (snd (crud_delete resource pid w)))
   \<and> (is_reply 200 (fst (hero_put body w))
      \<longrightarrow> effects w (snd (hero_put body w)) = [ReadDB, WriteDB]
        \<and> one_read_one_write w (snd (hero_put body w)))
   \<and> (disk w = Some db \<and> k \<noteq> resource
      \<longrightarrow> map_option (\<lambda>d. map_of d k) (disk (snd (crud_put resource pid body w))) = Some (map_of db k)
        \<and> map_option (\<lambda>d. map_of d k) (disk (snd (crud_delete resource pid w))) = Some (map_of db k))
   \<and> (disk w = Some db \<and> k \<noteq> ''hero''
      \<longrightarrow> map_option (\<lambda>d. map_of d k) (disk (snd (hero_put body w))) = Some (map_of db k))"
  using crud_put_effects [of resource pid body w]
    crud_delete_effects [of resource pid w]
    hero_put_effects [of body w]
    crud_put_frame [of w db k resource pid body]
    crud_delete_frame [of w db k resource pid]
    hero_put_frame [of w db k body]
  by (simp add: one_read_one_write_def count_event_def)

text \<open>The three routes on the example document, and two fields they do not target.\<close>

theorem mutations_read_write_frame_witness:
  "one_read_one_write example_world
     (snd (crud_put ''posts'' ''2'' (JObj [(''title'', JStr ''Updated'')]) example_world))
   \<and> effects example_world
       (snd (crud_put ''posts'' ''3'' (JObj [(''title'', JStr ''Updated'')]) example_world)) = [ReadDB]
   \<and> one_read_one_write example_world (snd (crud_delete ''posts'' ''1'' example_world))
   \<and> one_read_one_write example_world
       (snd (hero_put (JObj [(''title'', JStr ''New'')]) example_world))
   \<and> map_option (\<lambda>d. map_of d ''hero'')
       (disk (snd (crud_delete ''posts'' ''1'' example_world)))
     = Some (Some (JObj [(''title'', JStr ''Hi''), (''tagline'', JStr ''x'')]))
   \<and> map_option (\<lambda>d. map_of d ''admin'')
       (disk (snd (hero_put (JObj [(''title'', JStr ''New'')]) example_world)))
     = Some (Some (JObj [(''username'', JStr ''admin''), (''password'', JStr ''secret'')]))"
proof -
  let ?b = "JObj [(''title'', JStr ''Updated'')]"
  let ?h = "JObj [(''title'', JStr ''New'')]"
  have h0: "disk example_world = Some example_db"
    by (simp add: example_world_def)
  have h1: "is_reply 200 (fst (crud_put ''posts'' ''2'' ?b example_world))"
    by (simp add: crud_put_def readDB_def writeDB_def emit_def Let_def example_world_def
        example_db_def id_is_def get_prop_def)
  have h2: "is_reply 404 (fst (crud_put ''posts'' ''3'' ?b example_world))"
    by (simp add: crud_put_def readDB_def writeDB_def emit_def Let_def example_world_def
        example_db_def id_is_def get_prop_def)
  have h3: "is_reply 200 (fst (crud_delete ''posts'' ''1'' example_world))"
    by (simp add: crud_delete_def readDB_def writeDB_def emit_def example_world_def
        example_db_def id_is_def get_prop_def)
  have h4: "is_reply 200 (fst (hero_put ?h example_world))"
    by (simp add: hero_put_def readDB_def writeDB_def emit_def Let_def example_world_def)
  have k1: "''hero'' \<noteq> ''posts''" and k2: "''admin'' \<noteq> ''hero''"
    by simp_all
  have v1: "map_of example_db ''hero'' = Some (JObj [(''title'', JStr ''Hi''), (''tagline'', JStr ''x'')])"
    and v2: "map_of example_db ''admin''
      = Some (JObj [(''username'', JStr ''admin''), (''password'', JStr ''secret'')])"
    by (simp_all add: example_db_def)
  from mutations_read_write_frame [of "''posts''" "''2''" ?b example_world example_db "''admin''"] h1
  have a: "one_read_one_write example_world (snd (crud_put ''posts'' ''2'' ?b example_world))"
    by blast
  from mutations_read_write_frame [of "''posts''" "''3''" ?b example_world example_db "''admin''"] h2
  have b: "effects example_world (snd (crud_put ''posts'' ''3'' ?b example_world)) = [ReadDB]"
    by blast
  from mutations_read_write_frame [of "''posts''" "''1''" ?h example_world example_db "''hero''"]
    h3 h0 k1
  have c: "one_read_one_write example_world (snd (crud_delete ''posts'' ''1'' example_world))"
    and e: "map_option (\<lambda>d. map_of d ''hero'') (disk (snd (crud_delete ''posts'' ''1'' example_world)))
      = Some (map_of example_db ''hero'')"
    by blast+
  from mutations_read_write_frame [of "''posts''" "''1''" ?h example_world example_db "''admin''"]
    h4 h0 k2
  have d: "one_read_one_write example_world (snd (hero_put ?h example_world))"
    and f: "map_option (\<lambda>d. map_of d ''admin'') (disk (snd (hero_put ?h example_world)))
      = Some (map_of example_db ''admin'')"
    by blast+
  show ?thesis
    using a b c d e f by (simp add: v1 v2)
qed

text \<open>
  The object literal of the create route, had it a timestamp: the body is spread after
  the generated id, so an id of the body replaces it.
\<close>

lemma new_item_keeps_caller_id:
  "distinct (map fst b) \<Longrightarrow> map_of b ''id'' = Some v
   \<Longrightarrow> get_prop (Some (new_item now (JObj b) created_at)) ''id'' = Inr (Some v)"
  by (simp add: new_item_def get_prop_def update_conv' map_of_assign)

text \<open>
  C10. A create request whose body has an id should store and return a record with the
  caller's id, since the body is spread after the generated id. The object literal alone
  does carry the caller's id, but the handler never gets that far:
  \<^verbatim>\<open>POST /api/posts {"id":"custom","title":"Hello"}\<close> on the example document throws the
  TypeError of \<^verbatim>\<open>new Error().toISOString()\<close>, and nothing is stored or returned.
\<close>

theorem crud_post_caller_id_throws:
  "crud_post ''posts'' 42 (JObj [(''id'', JStr ''custom''), (''title'', JStr ''Hello'')]) example_world
     = (Uncaught TypeError, emit ReadDB example_world)
   \<and> disk (emit ReadDB example_world) = Some example_db
   \<and> get_prop (Some (new_item 42 (JObj [(''id'', JStr ''custom''), (''title'', JStr ''Hello'')])
         ''2026-11-03T00:00:00.000Z'')) ''id'' = Inr (Some (JStr ''custom''))"
  by (simp add: crud_post_def readDB_def new_Error_toISOString_def example_world_def emit_def
      new_item_def get_prop_def assign_def)

end
